theory Spec2Isabelle
  imports Main "HOL-Library.AList"
begin

section \<open>Exceptions\<close>

text \<open>
  The classes that \<^verbatim>\<open>exchange.py\<close> imports from \<^verbatim>\<open>ccxt.base.errors\<close>. Every one of
  them is a subclass of \<^verbatim>\<open>BaseError\<close>, which is the class the handler of
  \<^verbatim>\<open>load_order_book\<close> catches.
\<close>

datatype error_class =
    ExchangeError | NotSupported | ExchangeNotAvailable | RequestTimeout
  | BadSymbol | BadRequest | BadResponse | AuthenticationError
  | NullResponse | InvalidOrder | InvalidAddress

text \<open>
  A raised exception: an instance of a ccxt error class with its message, Python's builtin
  \<^verbatim>\<open>ConnectionError\<close> (the class the handler in \<^verbatim>\<open>send_message\<close> names), a
  \<^verbatim>\<open>KeyError\<close> (a \<^verbatim>\<open>del\<close> or a subscript on a missing key), the interpreter's
  \<^verbatim>\<open>RecursionError\<close>, or anything else. Only the first is caught by \<^verbatim>\<open>except BaseError\<close>.
\<close>

datatype exc =
    BaseError error_class string
  | ConnectionError string
  | KeyError string
  | RecursionError
  | OtherException string

fun is_BaseError :: "exc \<Rightarrow> bool" where
  "is_BaseError (BaseError _ _) = True"
| "is_BaseError _ = False"


subsection \<open>Python's \<^verbatim>\<open>str\<close> on an integer\<close>

definition digit_char :: "nat \<Rightarrow> char" where
  "digit_char n = ''0123456789'' ! (n mod 10)"

fun str_nat :: "nat \<Rightarrow> string" where
  "str_nat n = (if n < 10 then [digit_char n] else str_nat (n div 10) @ [digit_char n])"

definition str_int :: "int \<Rightarrow> string" where
  "str_int i = (if i < 0 then CHR ''-'' # str_nat (nat (- i)) else str_nat (nat i))"

section \<open>The REST fetch: mapping transport failures onto the taxonomy\<close>

text \<open>
  \<^verbatim>\<open>fetch\<close> wraps the HTTP request in a \<^verbatim>\<open>try\<close> with four \<^verbatim>\<open>except\<close> clauses. A clause
  fires when the raised object is an instance of the class it names, and Python tries the
  clauses from top to bottom. What the model keeps of a raised object is therefore which
  of the four named classes it is an instance of.
\<close>

record raised =
  inst_gaierror :: bool
  inst_TimeoutError :: bool
  inst_ClientConnectionError :: bool
  inst_ClientError :: bool

text \<open>\<^verbatim>\<open>details = ' '.join([self.id, method, url])\<close>\<close>

definition fetch_details :: "string \<Rightarrow> string \<Rightarrow> string \<Rightarrow> string" where
  "fetch_details ident http_method u = ident @ '' '' @ http_method @ '' '' @ u"

text \<open>
  The handlers of \<^verbatim>\<open>fetch\<close>, in the order of the source. \<open>Some e\<close>: a clause caught the
  object and raised \<open>e\<close> in its place; \<open>None\<close>: no clause matched and the object
  propagates as it is.
\<close>

definition fetch_except :: "string \<Rightarrow> string \<Rightarrow> string \<Rightarrow> raised \<Rightarrow> exc option" where
  "fetch_except ident http_method u e =
     (if inst_gaierror e then Some (BaseError ExchangeNotAvailable (fetch_details ident http_method u))
      else if inst_TimeoutError e then Some (BaseError RequestTimeout (fetch_details ident http_method u))
      else if inst_ClientConnectionError e
        then Some (BaseError ExchangeNotAvailable (fetch_details ident http_method u))
      else if inst_ClientError e then Some (BaseError ExchangeError (fetch_details ident http_method u))
      else None)"

section \<open>The state of an exchange instance\<close>

type_synonym symbol = string
type_synonym url = string
type_synonym hash = string

text \<open>
  Clients, futures and order books are Python objects: they are mutated in place and
  shared by reference. The model keeps one store per kind of object and passes
  references (numbers) where the source passes the objects.
\<close>

type_synonym cref = nat
type_synonym fref = nat
type_synonym oref = nat

text \<open>
  An order book: its contents (the two sides, the nonce, the timestamp: whatever a
  snapshot carries, left abstract) and the cache of the raw deltas received so far.
\<close>

record ('b, 'd) orderbook =
  book :: 'b
  cache :: "'d list"

text \<open>A future is pending, resolved with an order-book object, or rejected.\<close>

datatype future = Pending | Resolved oref | Rejected exc

text \<open>
  A message and a subscription descriptor are dictionaries; \<^verbatim>\<open>watch\<close> only tests whether
  they are truthy. The value stored under a subscribe hash is the descriptor or \<^verbatim>\<open>True\<close>.
\<close>

type_synonym message = "(string \<times> string) list"

datatype subscription = Marker | Descriptor "(string \<times> string) list"

record client =
  url :: url
  futures :: "hash \<rightharpoonup> fref"
  subscriptions :: "hash option \<rightharpoonup> subscription"
  connected_done :: bool

text \<open>What the closure \<^verbatim>\<open>after\<close> of a \<^verbatim>\<open>watch\<close> call captures.\<close>

record closure =
  cl_client :: cref
  cl_message :: "message option"
  cl_subscribe_hash :: "hash option"
  cl_future :: fref

text \<open>A scheduled \<^verbatim>\<open>send_message\<close> coroutine: the closure it lives in, the message, the cost.\<close>

record send_task =
  task_closure :: closure
  task_message :: message
  task_cost :: nat

text \<open>
  The calls an operation makes on its collaborators, and its deletions from the
  registry, in the order in which it makes them.
\<close>

datatype ('b, 'd) event =
    FetchOrderBook symbol
  | Reset oref 'b
  | HandleDelta oref 'd
  | CacheClear oref
  | ClientResolve cref oref hash
  | ClientReject cref exc hash
  | FutureReject fref exc
  | DelClient url
  | Connect cref
  | Throttle cref nat
  | Send cref message
  | CloseTask cref
  | WaitAllCompleted "(cref \<times> exc option) list"
  | SessionClose

text \<open>
  The instance. \<open>clients\<close> is a Python dictionary that \<^verbatim>\<open>ws_close\<close> iterates, so it is
  an association list in insertion order. \<open>option_maxRetries\<close> and \<open>option_ws_cost\<close>
  are the entries \<^verbatim>\<open>options['watchOrderBook']['maxRetries']\<close> and
  \<^verbatim>\<open>options['ws']['cost']\<close>, absent or set. \<open>fetches\<close> counts the calls of
  \<^verbatim>\<open>fetch_order_book\<close> made so far; \<open>callbacks\<close> are the done-callbacks registered and
  not yet run, \<open>tasks\<close> the \<^verbatim>\<open>send_message\<close> coroutines scheduled and not yet run.
\<close>

record ('b, 'd) exchange =
  exchange_id :: string
  option_maxRetries :: "int option"
  option_ws_cost :: "nat option"
  enableRateLimit :: bool
  own_session :: bool
  session :: "nat option"
  orderbooks :: "symbol \<rightharpoonup> oref"
  book_objs :: "oref \<Rightarrow> ('b, 'd) orderbook"
  clients :: "(url \<times> cref) list"
  client_objs :: "cref \<Rightarrow> client"
  future_objs :: "fref \<Rightarrow> future"
  next_ref :: nat
  fetches :: nat
  callbacks :: "closure list"
  tasks :: "send_task list"
  calls :: "('b, 'd) event list"

definition log :: "('b, 'd) event \<Rightarrow> ('b, 'd) exchange \<Rightarrow> ('b, 'd) exchange" where
  "log ev s = s\<lparr>calls := calls s @ [ev]\<rparr>"

section \<open>The client and the order book, as far as the synchronizer uses them\<close>

text \<open>
  Modelled from the spec: \<^verbatim>\<open>Future.resolve\<close> and \<^verbatim>\<open>Future.reject\<close> (ws/future.py is not
  under src/). A future is a single-resolution placeholder, completed exactly once: a
  completion of a future that is no longer pending changes nothing.
\<close>

definition complete :: "future \<Rightarrow> future \<Rightarrow> future" where
  "complete outcome f = (case f of Pending \<Rightarrow> outcome | Resolved r \<Rightarrow> f | Rejected e \<Rightarrow> f)"

definition future_reject :: "fref \<Rightarrow> exc \<Rightarrow> ('b, 'd) exchange \<Rightarrow> ('b, 'd) exchange" where
  "future_reject f e s =
     log (FutureReject f e)
       (s\<lparr>future_objs := (future_objs s)(f := complete (Rejected e) (future_objs s f))\<rparr>)"

text \<open>
  Modelled from the spec: \<^verbatim>\<open>Client.resolve\<close> and \<^verbatim>\<open>Client.reject\<close> (ws/client.py is not
  under src/). They complete the future registered under the message hash; with no future
  under that hash they are a no-op. The call itself is recorded in either case.
\<close>

definition client_resolve :: "cref \<Rightarrow> oref \<Rightarrow> hash \<Rightarrow> ('b, 'd) exchange \<Rightarrow> ('b, 'd) exchange" where
  "client_resolve c r mh s =
     log (ClientResolve c r mh)
       (case futures (client_objs s c) mh of
          None \<Rightarrow> s
        | Some f \<Rightarrow> s\<lparr>future_objs := (future_objs s)(f := complete (Resolved r) (future_objs s f))\<rparr>)"

definition client_reject :: "cref \<Rightarrow> exc \<Rightarrow> hash \<Rightarrow> ('b, 'd) exchange \<Rightarrow> ('b, 'd) exchange" where
  "client_reject c e mh s =
     log (ClientReject c e mh)
       (case futures (client_objs s c) mh of
          None \<Rightarrow> s
        | Some f \<Rightarrow> s\<lparr>future_objs := (future_objs s)(f := complete (Rejected e) (future_objs s f))\<rparr>)"

text \<open>
  Modelled from the spec: \<^verbatim>\<open>OrderBook.reset\<close> (ws/order_book.py is not under src/): it
  resets the order book to the snapshot contents. The cache is not part of the contents:
  \<^verbatim>\<open>load_order_book\<close> reads it after the reset.
\<close>

definition reset :: "oref \<Rightarrow> 'b \<Rightarrow> ('b, 'd) exchange \<Rightarrow> ('b, 'd) exchange" where
  "reset stored snapshot s =
     log (Reset stored snapshot)
       (s\<lparr>book_objs := (book_objs s)(stored := (book_objs s stored)\<lparr>book := snapshot\<rparr>)\<rparr>)"

text \<open>\<^verbatim>\<open>cache.clear()\<close>, where \<^verbatim>\<open>cache\<close> is the list object \<^verbatim>\<open>stored.cache\<close>.\<close>

definition cache_clear :: "oref \<Rightarrow> ('b, 'd) exchange \<Rightarrow> ('b, 'd) exchange" where
  "cache_clear stored s =
     log (CacheClear stored)
       (s\<lparr>book_objs := (book_objs s)(stored := (book_objs s stored)\<lparr>cache := []\<rparr>)\<rparr>)"

section \<open>The venue adapter\<close>

text \<open>
  \<^verbatim>\<open>fetch_order_book\<close>, \<^verbatim>\<open>get_cache_index\<close> and \<^verbatim>\<open>handle_delta\<close> are methods that each venue
  overrides, so \<^verbatim>\<open>load_order_book\<close> is modelled for any three of them.

  \<^item> \<open>fetch_order_book ad n\<close> is what the \<open>n\<close>-th call of \<^verbatim>\<open>fetch_order_book\<close> does
    (the arguments are the same at every call): the deltas that the stream appends to
    the cache while the caller is suspended in the \<^verbatim>\<open>await\<close>, and then the snapshot or
    the exception raised.
  \<^item> \<open>get_cache_index\<close> returns an index or raises.
  \<^item> \<open>handle_delta\<close> returns the updated contents of the book or raises; an adapter that
    raises is taken to leave the contents as it found them.
\<close>

record ('b, 'd) adapter =
  fetch_order_book :: "nat \<Rightarrow> 'd list \<times> (exc + 'b)"
  get_cache_index :: "'b \<Rightarrow> 'd list \<Rightarrow> exc + int"
  handle_delta :: "'b \<Rightarrow> 'd \<Rightarrow> exc + 'b"

text \<open>The two methods as the base class defines them.\<close>

definition base_handle_delta :: "string \<Rightarrow> 'b \<Rightarrow> 'd \<Rightarrow> exc + 'b" where
  "base_handle_delta ident bookside delta =
     Inl (BaseError NotSupported (ident @ '' handleDelta not supported yet''))"

definition base_get_cache_index :: "'b \<Rightarrow> 'd list \<Rightarrow> exc + int" where
  "base_get_cache_index orderbook deltas = Inr (- 1)"

section \<open>The order-book synchronizer\<close>

text \<open>One call \<^verbatim>\<open>self.handle_delta(orderbook, deltas[i])\<close> on the stored book.\<close>

definition handle_delta_on ::
  "('b, 'd) adapter \<Rightarrow> oref \<Rightarrow> 'd \<Rightarrow> ('b, 'd) exchange \<Rightarrow> exc option \<times> ('b, 'd) exchange" where
  "handle_delta_on ad stored delta s =
     (case handle_delta ad (book (book_objs s stored)) delta of
        Inl e \<Rightarrow> (Some e, log (HandleDelta stored delta) s)
      | Inr b \<Rightarrow>
          (None, log (HandleDelta stored delta)
                   (s\<lparr>book_objs := (book_objs s)(stored := (book_objs s stored)\<lparr>book := b\<rparr>)\<rparr>)))"

text \<open>\<^verbatim>\<open>handle_deltas\<close>: the loop over the list, left at the first exception.\<close>

fun handle_deltas ::
  "('b, 'd) adapter \<Rightarrow> oref \<Rightarrow> 'd list \<Rightarrow> ('b, 'd) exchange \<Rightarrow> exc option \<times> ('b, 'd) exchange" where
  "handle_deltas ad stored [] s = (None, s)"
| "handle_deltas ad stored (delta # deltas) s =
     (case handle_delta_on ad stored delta s of
        (Some e, s') \<Rightarrow> (Some e, s')
      | (None, s') \<Rightarrow> handle_deltas ad stored deltas s')"

text \<open>\<^verbatim>\<open>self.handle_option('watchOrderBook', 'maxRetries', 3)\<close>\<close>

definition handle_option_maxRetries :: "('b, 'd) exchange \<Rightarrow> int" where
  "handle_option_maxRetries s = (case option_maxRetries s of None \<Rightarrow> 3 | Some m \<Rightarrow> m)"

text \<open>
  \<^verbatim>\<open>await self.fetch_order_book(symbol, limit, params)\<close> up to the point where it returns
  or raises: the call is counted and recorded, and the deltas that arrived meanwhile are
  in the cache. (\<^verbatim>\<open>cache\<close> in the source is the list object \<^verbatim>\<open>stored.cache\<close> itself, so
  \<^verbatim>\<open>get_cache_index\<close> sees them.)
\<close>

definition await_fetch ::
  "('b, 'd) adapter \<Rightarrow> symbol \<Rightarrow> oref \<Rightarrow> ('b, 'd) exchange \<Rightarrow> ('b, 'd) exchange" where
  "await_fetch ad symbol stored s =
     log (FetchOrderBook symbol)
       (s\<lparr>fetches := Suc (fetches s),
          book_objs := (book_objs s)
            (stored := (book_objs s stored)
               \<lparr>cache := cache (book_objs s stored) @ fst (fetch_order_book ad (fetches s))\<rparr>)\<rparr>)"

text \<open>\<^verbatim>\<open>del self.clients[client.url]\<close>, a \<^verbatim>\<open>KeyError\<close> when the key is missing.\<close>

definition del_client :: "url \<Rightarrow> ('b, 'd) exchange \<Rightarrow> exc option \<times> ('b, 'd) exchange" where
  "del_client u s =
     (case map_of (clients s) u of
        None \<Rightarrow> (Some (KeyError u), s)
      | Some c \<Rightarrow> (None, log (DelClient u) (s\<lparr>clients := AList.delete u (clients s)\<rparr>)))"

definition nonce_error :: "string \<Rightarrow> int \<Rightarrow> exc" where
  "nonce_error ident maxRetries =
     BaseError ExchangeError
       (ident @ '' nonce is behind cache after '' @ str_int maxRetries @ '' tries.'')"

text \<open>
  The \<^verbatim>\<open>while\<close> loop of \<^verbatim>\<open>load_order_book\<close> and the two statements after it. The result is
  the exception that leaves the \<^verbatim>\<open>try\<close> block, if any, and the state at that point.
\<close>

function retry_loop ::
  "('b, 'd) adapter \<Rightarrow> cref \<Rightarrow> hash \<Rightarrow> symbol \<Rightarrow> oref \<Rightarrow> int \<Rightarrow> int \<Rightarrow> ('b, 'd) exchange
     \<Rightarrow> exc option \<times> ('b, 'd) exchange" where
  "retry_loop ad client mh symbol stored maxRetries tries s =
     (if tries < maxRetries then
        (let s1 = await_fetch ad symbol stored s;
             cache = cache (book_objs s1 stored)
         in case snd (fetch_order_book ad (fetches s)) of
              Inl e \<Rightarrow> (Some e, s1)
            | Inr order_book \<Rightarrow>
                (case get_cache_index ad order_book cache of
                   Inl e \<Rightarrow> (Some e, s1)
                 | Inr index \<Rightarrow>
                     if index \<ge> 0 then
                       (case handle_deltas ad stored (drop (nat index) cache)
                               (reset stored order_book s1) of
                          (Some e, s2) \<Rightarrow> (Some e, s2)
                        | (None, s2) \<Rightarrow>
                            (None, client_resolve client stored mh (cache_clear stored s2)))
                     else retry_loop ad client mh symbol stored maxRetries (tries + 1) s1))
      else
        del_client (url (client_objs s client))
          (client_reject client (nonce_error (exchange_id s) maxRetries) mh s))"
  by pat_completeness auto
termination
  by (relation "measure (\<lambda>(ad, client, mh, symbol, stored, maxRetries, tries, s).
        nat (maxRetries - tries))") auto

text \<open>The body of the \<^verbatim>\<open>try\<close> statement.\<close>

definition try_body ::
  "('b, 'd) adapter \<Rightarrow> cref \<Rightarrow> hash \<Rightarrow> symbol \<Rightarrow> ('b, 'd) exchange
     \<Rightarrow> exc option \<times> ('b, 'd) exchange" where
  "try_body ad client mh symbol s =
     (case orderbooks s symbol of
        None \<Rightarrow> (Some (KeyError symbol), s)
      | Some stored \<Rightarrow> retry_loop ad client mh symbol stored (handle_option_maxRetries s) 0 s)"

text \<open>How a coroutine ends: it returns, or an exception leaves it.\<close>

datatype completion = Returned | Propagated exc

definition not_initiated :: "string \<Rightarrow> exc" where
  "not_initiated ident = BaseError ExchangeError (ident @ '' loadOrderBook() orderbook is not initiated'')"

text \<open>
  \<^verbatim>\<open>load_order_book\<close>, first on an interpreter that nests calls without limit. The handler
  of the \<^verbatim>\<open>try\<close> calls the function again and the code keeps no count of these calls,
  so this function is partial: \<open>None\<close> is the call that never ends.
\<close>

partial_function (option) load_order_book ::
  "('b, 'd) adapter \<Rightarrow> cref \<Rightarrow> hash \<Rightarrow> symbol \<Rightarrow> ('b, 'd) exchange
     \<Rightarrow> (completion \<times> ('b, 'd) exchange) option" where
  "load_order_book ad client mh symbol s =
     (case orderbooks s symbol of
        None \<Rightarrow> Some (Returned, client_reject client (not_initiated (exchange_id s)) mh s)
      | Some stored \<Rightarrow>
          (case try_body ad client mh symbol s of
             (None, s1) \<Rightarrow> Some (Returned, s1)
           | (Some e, s1) \<Rightarrow>
               if is_BaseError e
               then load_order_book ad client mh symbol (client_reject client e mh s1)
               else Some (Propagated e, s1)))"


text \<open>
  The state in which the attempt cycle after the next \<open>n\<close> begins, when each of these
  \<open>n\<close> cycles ends with a \<^verbatim>\<open>BaseError\<close> (and \<open>None\<close> when one of them ends otherwise).
\<close>

fun error_cycles ::
  "('b, 'd) adapter \<Rightarrow> cref \<Rightarrow> hash \<Rightarrow> symbol \<Rightarrow> nat \<Rightarrow> ('b, 'd) exchange
     \<Rightarrow> ('b, 'd) exchange option" where
  "error_cycles ad client mh symbol 0 s = Some s"
| "error_cycles ad client mh symbol (Suc n) s =
     (case orderbooks s symbol of
        None \<Rightarrow> None
      | Some stored \<Rightarrow>
          (case try_body ad client mh symbol s of
             (None, s1) \<Rightarrow> None
           | (Some e, s1) \<Rightarrow>
               if is_BaseError e
               then error_cycles ad client mh symbol n (client_reject client e mh s1)
               else None))"

text \<open>
  What the deltas do to the contents of a book, without the state around it: the
  contents after \<^verbatim>\<open>handle_delta\<close> on each delta in list order, or the first exception.
\<close>

fun apply_deltas :: "('b, 'd) adapter \<Rightarrow> 'b \<Rightarrow> 'd list \<Rightarrow> exc + 'b" where
  "apply_deltas ad b [] = Inr b"
| "apply_deltas ad b (delta # deltas) =
     (case handle_delta ad b delta of Inl e \<Rightarrow> Inl e | Inr b' \<Rightarrow> apply_deltas ad b' deltas)"

text \<open>
  The cache that \<^verbatim>\<open>get_cache_index\<close> is given by an attempt that starts in state \<open>s\<close>, and
  whether that attempt finds no join point: its fetch returns a snapshot, and
  \<^verbatim>\<open>get_cache_index\<close> returns a negative index for it.
\<close>

definition cache_seen :: "('b, 'd) adapter \<Rightarrow> oref \<Rightarrow> ('b, 'd) exchange \<Rightarrow> 'd list" where
  "cache_seen ad stored s = cache (book_objs s stored) @ fst (fetch_order_book ad (fetches s))"

definition no_join :: "('b, 'd) adapter \<Rightarrow> oref \<Rightarrow> ('b, 'd) exchange \<Rightarrow> bool" where
  "no_join ad stored s =
     (case snd (fetch_order_book ad (fetches s)) of
        Inl e \<Rightarrow> False
      | Inr order_book \<Rightarrow>
          (case get_cache_index ad order_book (cache_seen ad stored s) of
             Inl e \<Rightarrow> False
           | Inr index \<Rightarrow> index < 0))"

section \<open>The subscription router\<close>

text \<open>
  Modelled from the spec: the constructor of the client (ws/fast_client.py is not under
  src/). A new connection has no subscription and no pending future, and it is not open.
\<close>

definition new_client :: "url \<Rightarrow> client" where
  "new_client u = \<lparr>url = u, futures = Map.empty, subscriptions = Map.empty, connected_done = False\<rparr>"

text \<open>\<^verbatim>\<open>self.client(url)\<close>: the registered client, or a new one, registered under the url.\<close>

definition client_at :: "url \<Rightarrow> ('b, 'd) exchange \<Rightarrow> cref \<times> ('b, 'd) exchange" where
  "client_at u s =
     (case map_of (clients s) u of
        Some c \<Rightarrow> (c, s)
      | None \<Rightarrow>
          (next_ref s,
           s\<lparr>clients := AList.update u (next_ref s) (clients s),
             client_objs := (client_objs s)(next_ref s := new_client u),
             next_ref := Suc (next_ref s)\<rparr>))"

text \<open>
  Modelled from the spec: \<^verbatim>\<open>Client.future\<close> (ws/client.py is not under src/). It returns
  the existing pending future for the hash or creates one.
\<close>

definition create_future :: "cref \<Rightarrow> hash \<Rightarrow> ('b, 'd) exchange \<Rightarrow> fref \<times> ('b, 'd) exchange" where
  "create_future c mh s =
     (next_ref s,
      s\<lparr>future_objs := (future_objs s)(next_ref s := Pending),
        client_objs := (client_objs s)
          (c := (client_objs s c)\<lparr>futures := (futures (client_objs s c))(mh \<mapsto> next_ref s)\<rparr>),
        next_ref := Suc (next_ref s)\<rparr>)"

definition client_future :: "cref \<Rightarrow> hash \<Rightarrow> ('b, 'd) exchange \<Rightarrow> fref \<times> ('b, 'd) exchange" where
  "client_future c mh s =
     (case futures (client_objs s c) mh of
        None \<Rightarrow> create_future c mh s
      | Some f \<Rightarrow>
          (case future_objs s f of
             Pending \<Rightarrow> (f, s)
           | Resolved r \<Rightarrow> create_future c mh s
           | Rejected e \<Rightarrow> create_future c mh s))"

text \<open>Python's truth value of what \<^verbatim>\<open>subscriptions.get\<close> returns, and of a message.\<close>

fun truthy :: "subscription option \<Rightarrow> bool" where
  "truthy None = False"
| "truthy (Some Marker) = True"
| "truthy (Some (Descriptor d)) = (d \<noteq> [])"

fun truthy_message :: "message option \<Rightarrow> bool" where
  "truthy_message None = False"
| "truthy_message (Some m) = (m \<noteq> [])"

text \<open>\<^verbatim>\<open>subscription or True\<close>\<close>

fun subscription_or_True :: "(string \<times> string) list option \<Rightarrow> subscription" where
  "subscription_or_True None = Marker"
| "subscription_or_True (Some d) = (if d = [] then Marker else Descriptor d)"

definition set_subscription ::
  "cref \<Rightarrow> hash option \<Rightarrow> subscription \<Rightarrow> ('b, 'd) exchange \<Rightarrow> ('b, 'd) exchange" where
  "set_subscription c k v s =
     s\<lparr>client_objs := (client_objs s)
         (c := (client_objs s c)\<lparr>subscriptions := (subscriptions (client_objs s c))(k \<mapsto> v)\<rparr>)\<rparr>"

text \<open>\<^verbatim>\<open>del client.subscriptions[subscribe_hash]\<close>, a \<^verbatim>\<open>KeyError\<close> when the key is missing.\<close>

definition del_subscription ::
  "cref \<Rightarrow> hash option \<Rightarrow> ('b, 'd) exchange \<Rightarrow> exc option \<times> ('b, 'd) exchange" where
  "del_subscription c k s =
     (case subscriptions (client_objs s c) k of
        None \<Rightarrow> (Some (KeyError (case k of None \<Rightarrow> ''None'' | Some h \<Rightarrow> h)), s)
      | Some v \<Rightarrow>
          (None, s\<lparr>client_objs := (client_objs s)
             (c := (client_objs s c)\<lparr>subscriptions := (subscriptions (client_objs s c))(k := None)\<rparr>)\<rparr>))"

text \<open>\<^verbatim>\<open>self.open()\<close>, as far as the session goes.\<close>

definition open_session :: "('b, 'd) exchange \<Rightarrow> ('b, 'd) exchange" where
  "open_session s =
     (if own_session s \<and> session s = None
      then s\<lparr>session := Some (next_ref s), next_ref := Suc (next_ref s)\<rparr>
      else s)"

text \<open>
  \<^verbatim>\<open>watch\<close>. The last argument is the exception that \<^verbatim>\<open>connected.add_done_callback(after)\<close>
  raises, if it raises: the only thing the \<^verbatim>\<open>try\<close> around it can catch. Registering the
  callback runs nothing: \<^verbatim>\<open>after\<close> runs later, from the event loop.
\<close>

definition watch ::
  "url \<Rightarrow> hash \<Rightarrow> message option \<Rightarrow> hash option \<Rightarrow> (string \<times> string) list option \<Rightarrow> exc option
     \<Rightarrow> ('b, 'd) exchange \<Rightarrow> fref \<times> ('b, 'd) exchange" where
  "watch u message_hash message subscribe_hash subscription callback_error s =
     (case client_at u s of (client, s1) \<Rightarrow>
        (case (subscribe_hash, futures (client_objs s1 client) message_hash) of
           (None, Some f) \<Rightarrow> (f, s1)
         | _ \<Rightarrow>
           (case client_future client message_hash s1 of (future, s2) \<Rightarrow>
              (let subscribed = subscriptions (client_objs s2 client) subscribe_hash;
                   s3 = (if \<not> truthy subscribed
                         then set_subscription client subscribe_hash
                                (subscription_or_True subscription) s2
                         else s2);
                   s4 = open_session s3;
                   s5 = (if connected_done (client_objs s4 client) then s4
                         else log (Connect client) s4)
               in if \<not> truthy subscribed then
                    (case callback_error of
                       None \<Rightarrow>
                         (future,
                          s5\<lparr>callbacks := callbacks s5 @
                               [\<lparr>cl_client = client, cl_message = message,
                                 cl_subscribe_hash = subscribe_hash, cl_future = future\<rparr>]\<rparr>)
                     | Some e \<Rightarrow>
                         (future,
                          future_reject future e
                            (snd (del_subscription client subscribe_hash s5))))
                  else (future, s5)))))"

text \<open>How the open of a connection ends. \<^verbatim>\<open>after(fut)\<close> receives it and does not look at it.\<close>

datatype open_outcome = Opened | OpenFailed exc

text \<open>The callback \<^verbatim>\<open>after\<close>: it schedules \<^verbatim>\<open>send_message\<close> when there is a message.\<close>

definition after :: "open_outcome \<Rightarrow> closure \<Rightarrow> ('b, 'd) exchange \<Rightarrow> ('b, 'd) exchange" where
  "after fut cl s =
     (let cost = (case option_ws_cost s of None \<Rightarrow> 1 | Some c \<Rightarrow> c)
      in case cl_message cl of
           None \<Rightarrow> s
         | Some m \<Rightarrow>
             if m \<noteq> []
             then s\<lparr>tasks := tasks s @ [\<lparr>task_closure = cl, task_message = m, task_cost = cost\<rparr>]\<rparr>
             else s)"






section \<open>Shutdown\<close>

text \<open>
  \<^verbatim>\<open>ws_close\<close>. \<open>close_error c\<close> is what \<^verbatim>\<open>client.close()\<close> raises on client \<open>c\<close>, if it
  raises. The comprehension creates one task per registered client before anything is
  awaited; \<^verbatim>\<open>asyncio.wait\<close> with \<^verbatim>\<open>ALL_COMPLETED\<close> returns when every task is done and
  raises nothing itself: an exception of a task stays in the task. Every key deleted in
  the loop comes from the copy of the dictionary, so no \<^verbatim>\<open>del\<close> can fail.
\<close>

definition ws_close :: "(cref \<Rightarrow> exc option) \<Rightarrow> ('b, 'd) exchange \<Rightarrow> ('b, 'd) exchange" where
  "ws_close close_error s =
     (if clients s \<noteq> [] then
        (let cs = map snd (clients s);
             s1 = fold (\<lambda>c. log (CloseTask c)) cs s;
             s2 = log (WaitAllCompleted (map (\<lambda>c. (c, close_error c)) cs)) s1
         in fold (\<lambda>u s'. s'\<lparr>clients := AList.delete u (clients s')\<rparr>) (map fst (clients s2)) s2)
      else s)"

text \<open>\<^verbatim>\<open>close\<close>: the connections first, then the session.\<close>

definition close :: "(cref \<Rightarrow> exc option) \<Rightarrow> ('b, 'd) exchange \<Rightarrow> ('b, 'd) exchange" where
  "close close_error s =
     (let s1 = ws_close close_error s
      in case session s1 of
           None \<Rightarrow> s1
         | Some h \<Rightarrow> (if own_session s1 then log SessionClose s1 else s1)\<lparr>session := None\<rparr>)"

section \<open>Sample instances\<close>

text \<open>
  A venue for the scenarios: the contents of a book are its nonce, a delta is the nonce it
  brings, and applying a delta moves the book to that nonce. The join point is the first
  cached delta newer than the snapshot; there is none when the cache is empty or starts
  beyond the snapshot's successor.
\<close>

definition sample_get_cache_index :: "nat \<Rightarrow> nat list \<Rightarrow> exc + int" where
  "sample_get_cache_index nonce deltas =
     (case deltas of
        [] \<Rightarrow> Inr (- 1)
      | d # ds \<Rightarrow>
          if Suc nonce < d then Inr (- 1)
          else Inr (int (length (takeWhile (\<lambda>x. x \<le> nonce) deltas))))"

definition sample_adapter :: "(nat \<Rightarrow> nat list \<times> (exc + nat)) \<Rightarrow> (nat, nat) adapter" where
  "sample_adapter f =
     \<lparr>fetch_order_book = f, get_cache_index = sample_get_cache_index,
      handle_delta = (\<lambda>b d. Inr d)\<rparr>"

text \<open>The same venue without a \<^verbatim>\<open>handle_delta\<close> of its own: the base class's is used.\<close>

definition unsupported_adapter :: "(nat \<Rightarrow> nat list \<times> (exc + nat)) \<Rightarrow> (nat, nat) adapter" where
  "unsupported_adapter f =
     \<lparr>fetch_order_book = f, get_cache_index = sample_get_cache_index,
      handle_delta = base_handle_delta ''binance''\<rparr>"

text \<open>
  An instance with one open connection (client 1) and one order book (object 0) that has
  buffered the deltas 101 to 105; future 2 waits under the message hash of the book.
\<close>

definition sample_exchange :: "(nat, nat) exchange" where
  "sample_exchange =
     \<lparr>exchange_id = ''binance'', option_maxRetries = None, option_ws_cost = None,
      enableRateLimit = True, own_session = True, session = None,
      orderbooks = [''BTC/USDT'' \<mapsto> 0],
      book_objs = (\<lambda>r. \<lparr>book = 100, cache = [101, 102, 103, 104, 105]\<rparr>),
      clients = [(''wss://stream'', 1)],
      client_objs = (\<lambda>c. \<lparr>url = ''wss://stream'', futures = [''orderbook:BTC/USDT'' \<mapsto> 2],
         subscriptions = Map.empty, connected_done = True\<rparr>),
      future_objs = (\<lambda>f. Pending), next_ref = 3, fetches = 0, callbacks = [], tasks = [],
      calls = []\<rparr>"

text \<open>Three registered connections, and a session of the instance's own.\<close>

definition three_connections :: "(nat, nat) exchange" where
  "three_connections =
     sample_exchange\<lparr>clients := [(''wss://a'', 1), (''wss://b'', 4), (''wss://c'', 5)],
                     session := Some 9\<rparr>"





section \<open>Properties of the synchronizer\<close>

declare retry_loop.simps [simp del]


subsection \<open>What each step leaves alone\<close>


lemma client_reject_frame:
  "option_maxRetries (client_reject c e mh s) = option_maxRetries s"
  "orderbooks (client_reject c e mh s) = orderbooks s"
  "book_objs (client_reject c e mh s) = book_objs s"
  "exchange_id (client_reject c e mh s) = exchange_id s"
  "client_objs (client_reject c e mh s) = client_objs s"
  "clients (client_reject c e mh s) = clients s"
  "fetches (client_reject c e mh s) = fetches s"
  "calls (client_reject c e mh s) = calls s @ [ClientReject c e mh]"
  by (simp_all add: client_reject_def log_def split: option.splits)

lemma client_resolve_frame:
  "option_maxRetries (client_resolve c r mh s) = option_maxRetries s"
  "orderbooks (client_resolve c r mh s) = orderbooks s"
  "book_objs (client_resolve c r mh s) = book_objs s"
  "exchange_id (client_resolve c r mh s) = exchange_id s"
  "client_objs (client_resolve c r mh s) = client_objs s"
  "clients (client_resolve c r mh s) = clients s"
  "fetches (client_resolve c r mh s) = fetches s"
  "calls (client_resolve c r mh s) = calls s @ [ClientResolve c r mh]"
  by (simp_all add: client_resolve_def log_def split: option.splits)

lemma await_fetch_frame:
  "option_maxRetries (await_fetch ad symbol stored s) = option_maxRetries s"
  "orderbooks (await_fetch ad symbol stored s) = orderbooks s"
  "exchange_id (await_fetch ad symbol stored s) = exchange_id s"
  "client_objs (await_fetch ad symbol stored s) = client_objs s"
  "future_objs (await_fetch ad symbol stored s) = future_objs s"
  "clients (await_fetch ad symbol stored s) = clients s"
  "fetches (await_fetch ad symbol stored s) = Suc (fetches s)"
  "calls (await_fetch ad symbol stored s) = calls s @ [FetchOrderBook symbol]"
  by (simp_all add: await_fetch_def log_def)

lemma attempts_frame:
  "option_maxRetries ((await_fetch ad symbol stored ^^ k) s) = option_maxRetries s"
  "orderbooks ((await_fetch ad symbol stored ^^ k) s) = orderbooks s"
  "exchange_id ((await_fetch ad symbol stored ^^ k) s) = exchange_id s"
  "client_objs ((await_fetch ad symbol stored ^^ k) s) = client_objs s"
  "future_objs ((await_fetch ad symbol stored ^^ k) s) = future_objs s"
  "clients ((await_fetch ad symbol stored ^^ k) s) = clients s"
  "fetches ((await_fetch ad symbol stored ^^ k) s) = fetches s + k"
  "calls ((await_fetch ad symbol stored ^^ k) s) = calls s @ replicate k (FetchOrderBook symbol)"
  by (induction k) (simp_all add: await_fetch_frame replicate_append_same)



subsection \<open>The loop, attempt by attempt\<close>

lemma handle_deltas_ok:
  "apply_deltas ad (book (book_objs s stored)) ds = Inr b' \<Longrightarrow>
   handle_deltas ad stored ds s =
     (None, s\<lparr>book_objs := (book_objs s)(stored := (book_objs s stored)\<lparr>book := b'\<rparr>),
              calls := calls s @ map (HandleDelta stored) ds\<rparr>)"
proof (induction ds arbitrary: s)
  case Nil
  then have "b' = book (book_objs s stored)" by simp
  then show ?case by simp
next
  case (Cons d ds)
  from Cons.prems obtain b1 where b1: "handle_delta ad (book (book_objs s stored)) d = Inr b1"
    and rest: "apply_deltas ad b1 ds = Inr b'"
    by (auto split: sum.splits)
  define s1 where "s1 = log (HandleDelta stored d)
     (s\<lparr>book_objs := (book_objs s)(stored := (book_objs s stored)\<lparr>book := b1\<rparr>)\<rparr>)"
  have step: "handle_delta_on ad stored d s = (None, s1)"
    by (simp add: handle_delta_on_def b1 s1_def)
  have "book (book_objs s1 stored) = b1" by (simp add: s1_def log_def)
  with rest have "apply_deltas ad (book (book_objs s1 stored)) ds = Inr b'" by simp
  from Cons.IH[OF this] step show ?case
    by (simp add: s1_def log_def cong: if_cong)
qed

lemma cache_await_fetch:
  "cache (book_objs (await_fetch ad symbol stored s) stored) = cache_seen ad stored s"
  by (simp add: await_fetch_def log_def cache_seen_def)

lemma retry_no_join_step:
  "tries < maxRetries \<Longrightarrow> no_join ad stored s \<Longrightarrow>
   retry_loop ad c mh symbol stored maxRetries tries s =
   retry_loop ad c mh symbol stored maxRetries (tries + 1) (await_fetch ad symbol stored s)"
  by (subst retry_loop.simps)
     (auto simp: no_join_def cache_await_fetch Let_def split: sum.splits)

lemma retry_no_join:
  "\<forall>j<k. no_join ad stored ((await_fetch ad symbol stored ^^ j) s) \<Longrightarrow>
   tries + int k \<le> maxRetries \<Longrightarrow>
   retry_loop ad c mh symbol stored maxRetries tries s =
   retry_loop ad c mh symbol stored maxRetries (tries + int k)
     ((await_fetch ad symbol stored ^^ k) s)"
proof (induction k arbitrary: tries s)
  case 0
  then show ?case by simp
next
  case (Suc k)
  from Suc.prems have nj: "no_join ad stored s" by force
  from Suc.prems have rest: "\<forall>j<k. no_join ad stored ((await_fetch ad symbol stored ^^ j) (await_fetch ad symbol stored s))"
    by (metis Suc_less_eq funpow_Suc_right o_apply)
  from Suc.prems have lt: "tries < maxRetries" "(tries + 1) + int k \<le> maxRetries" by auto
  show ?case
    using retry_no_join_step[OF lt(1) nj] Suc.IH[OF rest lt(2)]
    by (simp add: funpow_swap1 add.assoc)
qed

subsection \<open>Cycles that end with an error\<close>

lemma error_cycles_Suc:
  "error_cycles ad c mh symbol (Suc n) s = Some sn \<Longrightarrow>
   \<exists>stored e s1. orderbooks s symbol = Some stored \<and>
     try_body ad c mh symbol s = (Some e, s1) \<and> is_BaseError e \<and>
     error_cycles ad c mh symbol n (client_reject c e mh s1) = Some sn"
  by (cases "try_body ad c mh symbol s") (auto split: option.splits if_splits)


lemma error_cycles_load:
  "error_cycles ad c mh symbol n s = Some sn \<Longrightarrow>
   load_order_book ad c mh symbol s = load_order_book ad c mh symbol sn"
proof (induction n arbitrary: s)
  case 0
  then show ?case by simp
next
  case (Suc n)
  from error_cycles_Suc[OF Suc.prems] obtain stored e s1 where
    *: "orderbooks s symbol = Some stored" "try_body ad c mh symbol s = (Some e, s1)"
       "is_BaseError e" "error_cycles ad c mh symbol n (client_reject c e mh s1) = Some sn"
    by blast
  from * have "load_order_book ad c mh symbol s
      = load_order_book ad c mh symbol (client_reject c e mh s1)"
    by (subst load_order_book.simps) simp
  with Suc.IH[OF *(4)] show ?case by simp
qed


lemma never_returns:
  assumes step: "\<And>s. I s \<Longrightarrow> orderbooks s symbol \<noteq> None \<and>
      (\<exists>e s1. try_body ad c mh symbol s = (Some e, s1) \<and> is_BaseError e \<and> I (client_reject c e mh s1))"
    and start: "I s"
  shows "load_order_book ad c mh symbol s = None"
proof (cases "load_order_book ad c mh symbol s")
  case None then show ?thesis .
next
  case (Some y)
  have "ad = ad \<and> c = c \<and> mh = mh \<and> symbol = symbol \<longrightarrow> \<not> I s"
  proof (rule load_order_book.raw_induct
      [where P = "\<lambda>a b m sy t y. a = ad \<and> b = c \<and> m = mh \<and> sy = symbol \<longrightarrow> \<not> I t", OF _ Some])
    fix lob a b m sy t z
    assume IH: "\<And>a b m sy t z. lob a b m sy t = Some z \<Longrightarrow>
                  a = ad \<and> b = c \<and> m = mh \<and> sy = symbol \<longrightarrow> \<not> I t"
      and body: "(case orderbooks t sy of
          None \<Rightarrow> Some (Returned, client_reject b (not_initiated (exchange_id t)) m t)
        | Some stored \<Rightarrow>
            (case try_body a b m sy t of
               (None, s1) \<Rightarrow> Some (Returned, s1)
             | (Some e, s1) \<Rightarrow>
                 if is_BaseError e then lob a b m sy (client_reject b e m s1)
                 else Some (Propagated e, s1))) = Some z"
    show "a = ad \<and> b = c \<and> m = mh \<and> sy = symbol \<longrightarrow> \<not> I t"
    proof (intro impI notI, elim conjE)
      assume eqs: "a = ad" "b = c" "m = mh" "sy = symbol" and "I t"
      from step[OF \<open>I t\<close>] obtain e s1 st where
        *: "orderbooks t symbol = Some st" "try_body ad c mh symbol t = (Some e, s1)"
           "is_BaseError e" "I (client_reject c e mh s1)"
        by blast
      from body eqs * have "lob ad c mh symbol (client_reject c e mh s1) = Some z" by simp
      from IH[OF this] * show False by simp
    qed
  qed
  with start show ?thesis by simp
qed




lemma cycle_joins:
  fixes s0 :: "('b, 'd) exchange" and ad symbol stored k
  defines "sk \<equiv> (await_fetch ad symbol stored ^^ k) s0"
  assumes book: "orderbooks s0 symbol = Some stored"
    and k: "int k < handle_option_maxRetries s0"
    and nj: "\<forall>j<k. no_join ad stored ((await_fetch ad symbol stored ^^ j) s0)"
    and snap: "snd (fetch_order_book ad (fetches sk)) = Inr snapshot"
    and idx: "get_cache_index ad snapshot (cache_seen ad stored sk) = Inr index" "0 \<le> index"
    and app: "apply_deltas ad snapshot (drop (nat index) (cache_seen ad stored sk)) = Inr b'"
  shows "\<exists>s'. try_body ad client mh symbol s0 = (None, s') \<and>
     calls s' = calls s0 @ replicate (Suc k) (FetchOrderBook symbol) @ [Reset stored snapshot]
        @ map (HandleDelta stored) (drop (nat index) (cache_seen ad stored sk))
        @ [CacheClear stored, ClientResolve client stored mh] \<and>
     book_objs s' stored = \<lparr>book = b', cache = []\<rparr> \<and>
     fetches s' = fetches s0 + Suc k \<and> clients s' = clients s0 \<and>
     orderbooks s' = orderbooks s0 \<and> client_objs s' = client_objs s0 \<and>
     (\<forall>f. futures (client_objs s0 client) mh = Some f \<longrightarrow>
        future_objs s' f = complete (Resolved stored) (future_objs s0 f))"
proof -
  define N where "N = handle_option_maxRetries s0"
  define ds where "ds = drop (nat index) (cache_seen ad stored sk)"
  define s1 where "s1 = await_fetch ad symbol stored sk"
  define s2 where "s2 = reset stored snapshot s1"
  define s3 where "s3 = s2\<lparr>book_objs := (book_objs s2)(stored := (book_objs s2 stored)\<lparr>book := b'\<rparr>),
              calls := calls s2 @ map (HandleDelta stored) ds\<rparr>"
  define s' where "s' = client_resolve client stored mh (cache_clear stored s3)"
  note fk = attempts_frame[where ad = ad and symbol = symbol and stored = stored and k = k
      and s = s0, folded sk_def]
  have c1: "cache (book_objs s1 stored) = cache_seen ad stored sk"
    by (simp add: s1_def cache_await_fetch)
  have "book (book_objs s2 stored) = snapshot" by (simp add: s2_def reset_def log_def)
  with app have "apply_deltas ad (book (book_objs s2 stored)) ds = Inr b'" by (simp add: ds_def)
  from handle_deltas_ok[OF this] have hd: "handle_deltas ad stored ds s2 = (None, s3)"
    by (simp add: s3_def)
  from k have lt: "0 + int k < N" and le: "0 + int k \<le> N" by (simp_all add: N_def)
  have "retry_loop ad client mh symbol stored N 0 s0
      = retry_loop ad client mh symbol stored N (0 + int k) sk"
    unfolding sk_def by (rule retry_no_join[OF nj le])
  also have "\<dots> = (None, s')"
    using lt snap idx hd
    by (subst retry_loop.simps)
       (simp add: Let_def s1_def[symmetric] c1 ds_def[symmetric] s2_def[symmetric] s'_def)
  finally have tb: "try_body ad client mh symbol s0 = (None, s')"
    using book by (simp add: try_body_def N_def)
  have f1: "calls s1 = calls s0 @ replicate (Suc k) (FetchOrderBook symbol)"
    "fetches s1 = fetches s0 + Suc k" "clients s1 = clients s0" "orderbooks s1 = orderbooks s0"
    "client_objs s1 = client_objs s0" "future_objs s1 = future_objs s0"
    by (simp_all add: s1_def await_fetch_frame fk replicate_append_same)
  have f3: "calls s3 = calls s1 @ [Reset stored snapshot] @ map (HandleDelta stored) ds"
    "fetches s3 = fetches s1" "clients s3 = clients s1" "orderbooks s3 = orderbooks s1"
    "client_objs s3 = client_objs s1" "future_objs s3 = future_objs s1"
    "book (book_objs s3 stored) = b'"
    by (simp_all add: s3_def s2_def reset_def log_def)
  have g: "calls s' = calls s3 @ [CacheClear stored, ClientResolve client stored mh]"
    "fetches s' = fetches s3" "clients s' = clients s3" "orderbooks s' = orderbooks s3"
    "client_objs s' = client_objs s3"
    by (simp_all add: s'_def client_resolve_frame cache_clear_def log_def)
  have b: "book_objs s' stored = \<lparr>book = b', cache = []\<rparr>"
    using f3(7) by (simp add: s'_def client_resolve_frame cache_clear_def log_def)
  have fut: "\<forall>f. futures (client_objs s0 client) mh = Some f \<longrightarrow>
        future_objs s' f = complete (Resolved stored) (future_objs s0 f)"
    using f1(5,6) f3(5,6)
    by (simp add: s'_def client_resolve_def cache_clear_def log_def)
  show ?thesis
    using tb b fut by (simp add: g f3 f1 ds_def)
qed

lemma load_returns_after_try:
  assumes "orderbooks s symbol = Some stored" and "try_body ad c mh symbol s = (r, s')"
    and "\<forall>e. r = Some e \<longrightarrow> \<not> is_BaseError e"
  shows "load_order_book ad c mh symbol s
      = Some (case r of None \<Rightarrow> Returned | Some e \<Rightarrow> Propagated e, s')"
  using assms by (subst load_order_book.simps) (auto split: option.splits)

lemma sample_adapter_simps:
  "fetch_order_book (sample_adapter f) = f"
  "get_cache_index (sample_adapter f) = sample_get_cache_index"
  "handle_delta (sample_adapter f) = (\<lambda>b d. Inr d)"
  "fetch_order_book (unsupported_adapter f) = f"
  "get_cache_index (unsupported_adapter f) = sample_get_cache_index"
  "handle_delta (unsupported_adapter f) = base_handle_delta ''binance''"
  by (simp_all add: sample_adapter_def unsupported_adapter_def)

lemma sample_exchange_simps:
  "orderbooks sample_exchange ''BTC/USDT'' = Some 0"
  "handle_option_maxRetries sample_exchange = 3"
  "option_maxRetries sample_exchange = None"
  "fetches sample_exchange = 0"
  "calls sample_exchange = []"
  "cache (book_objs sample_exchange r) = [101, 102, 103, 104, 105]"
  "futures (client_objs sample_exchange c) ''orderbook:BTC/USDT'' = Some 2"
  "future_objs sample_exchange f = Pending"
  "clients sample_exchange = [(''wss://stream'', 1)]"
  by (simp_all add: sample_exchange_def handle_option_maxRetries_def)




lemma close_tasks_frame:
  "calls (fold (\<lambda>c. log (CloseTask c)) cs s) = calls s @ map CloseTask cs"
  "clients (fold (\<lambda>c. log (CloseTask c)) cs s) = clients s"
  "session (fold (\<lambda>c. log (CloseTask c)) cs s) = session s"
  "own_session (fold (\<lambda>c. log (CloseTask c)) cs s) = own_session s"
  by (induction cs arbitrary: s) (simp_all add: log_def)

lemma delete_all_frame:
  "fst ` set (clients s) \<subseteq> set us \<Longrightarrow>
   clients (fold (\<lambda>u s'. s'\<lparr>clients := AList.delete u (clients s')\<rparr>) us s) = []"
  "calls (fold (\<lambda>u s'. s'\<lparr>clients := AList.delete u (clients s')\<rparr>) us s) = calls s"
  "session (fold (\<lambda>u s'. s'\<lparr>clients := AList.delete u (clients s')\<rparr>) us s) = session s"
  "own_session (fold (\<lambda>u s'. s'\<lparr>clients := AList.delete u (clients s')\<rparr>) us s) = own_session s"
proof -
  show "fst ` set (clients s) \<subseteq> set us \<Longrightarrow>
   clients (fold (\<lambda>u s'. s'\<lparr>clients := AList.delete u (clients s')\<rparr>) us s) = []"
  proof (induction us arbitrary: s)
    case Nil
    then show ?case by simp
  next
    case (Cons u us)
    have "fst ` set (AList.delete u (clients s)) \<subseteq> set us"
      using Cons.prems by (auto simp: AList.delete_eq)
    then have "fst ` set (clients (s\<lparr>clients := AList.delete u (clients s)\<rparr>)) \<subseteq> set us"
      by simp
    from Cons.IH[OF this] show ?case by simp
  qed
  show "calls (fold (\<lambda>u s'. s'\<lparr>clients := AList.delete u (clients s')\<rparr>) us s) = calls s"
    by (induction us arbitrary: s) simp_all
  show "session (fold (\<lambda>u s'. s'\<lparr>clients := AList.delete u (clients s')\<rparr>) us s) = session s"
    by (induction us arbitrary: s) simp_all
  show "own_session (fold (\<lambda>u s'. s'\<lparr>clients := AList.delete u (clients s')\<rparr>) us s) = own_session s"
    by (induction us arbitrary: s) simp_all
qed

subsection \<open>After the retries are exhausted\<close>







subsection \<open>Nested cycles under the recursion limit\<close>





subsection \<open>The router, call by call\<close>

















section \<open>The claims\<close>

text \<open>
  C9. A transport-level failure of the request in \<^verbatim>\<open>fetch\<close> is mapped onto the taxonomy by
  the first \<^verbatim>\<open>except\<close> clause that matches it: a DNS resolution failure
  (\<^verbatim>\<open>socket.gaierror\<close>) raises \<^verbatim>\<open>ExchangeNotAvailable\<close>; otherwise a timeout raises
  \<^verbatim>\<open>RequestTimeout\<close>; otherwise a connection-level error
  (\<^verbatim>\<open>aiohttp.ClientConnectionError\<close>) raises \<^verbatim>\<open>ExchangeNotAvailable\<close>; otherwise any other
  client error (\<^verbatim>\<open>aiohttp.ClientError\<close>) raises \<^verbatim>\<open>ExchangeError\<close>. The message is the
  id, the HTTP method and the url.
\<close>

theorem fetch_maps_transport_failures:
  "(inst_gaierror e \<longrightarrow>
      fetch_except ident http_method u e
        = Some (BaseError ExchangeNotAvailable (fetch_details ident http_method u))) \<and>
   (\<not> inst_gaierror e \<and> inst_TimeoutError e \<longrightarrow>
      fetch_except ident http_method u e
        = Some (BaseError RequestTimeout (fetch_details ident http_method u))) \<and>
   (\<not> inst_gaierror e \<and> \<not> inst_TimeoutError e \<and> inst_ClientConnectionError e \<longrightarrow>
      fetch_except ident http_method u e
        = Some (BaseError ExchangeNotAvailable (fetch_details ident http_method u))) \<and>
   (\<not> inst_gaierror e \<and> \<not> inst_TimeoutError e \<and> \<not> inst_ClientConnectionError e \<and>
    inst_ClientError e \<longrightarrow>
      fetch_except ident http_method u e
        = Some (BaseError ExchangeError (fetch_details ident http_method u)))"
  by (simp add: fetch_except_def)

theorem fetch_maps_transport_failures_witness:
  "fetch_except ''binance'' ''GET'' ''https://api/depth''
     \<lparr>inst_gaierror = True, inst_TimeoutError = False,
      inst_ClientConnectionError = False, inst_ClientError = False\<rparr>
     = Some (BaseError ExchangeNotAvailable ''binance GET https://api/depth'') \<and>
   fetch_except ''binance'' ''GET'' ''https://api/depth''
     \<lparr>inst_gaierror = False, inst_TimeoutError = True,
      inst_ClientConnectionError = False, inst_ClientError = False\<rparr>
     = Some (BaseError RequestTimeout ''binance GET https://api/depth'') \<and>
   fetch_except ''binance'' ''GET'' ''https://api/depth''
     \<lparr>inst_gaierror = False, inst_TimeoutError = False,
      inst_ClientConnectionError = True, inst_ClientError = True\<rparr>
     = Some (BaseError ExchangeNotAvailable ''binance GET https://api/depth'') \<and>
   fetch_except ''binance'' ''GET'' ''https://api/depth''
     \<lparr>inst_gaierror = False, inst_TimeoutError = False,
      inst_ClientConnectionError = False, inst_ClientError = True\<rparr>
     = Some (BaseError ExchangeError ''binance GET https://api/depth'')"
  using
    fetch_maps_transport_failures [of "\<lparr>inst_gaierror = True, inst_TimeoutError = False,
      inst_ClientConnectionError = False, inst_ClientError = False\<rparr>"
      "''binance''" "''GET''" "''https://api/depth''"]
    fetch_maps_transport_failures [of "\<lparr>inst_gaierror = False, inst_TimeoutError = True,
      inst_ClientConnectionError = False, inst_ClientError = False\<rparr>"
      "''binance''" "''GET''" "''https://api/depth''"]
    fetch_maps_transport_failures [of "\<lparr>inst_gaierror = False, inst_TimeoutError = False,
      inst_ClientConnectionError = True, inst_ClientError = True\<rparr>"
      "''binance''" "''GET''" "''https://api/depth''"]
    fetch_maps_transport_failures [of "\<lparr>inst_gaierror = False, inst_TimeoutError = False,
      inst_ClientConnectionError = False, inst_ClientError = True\<rparr>"
      "''binance''" "''GET''" "''https://api/depth''"]
  by (simp add: fetch_details_def)

text \<open>
  C7. With no entry for the symbol in the order books, \<^verbatim>\<open>load_order_book\<close> rejects the
  future under the message hash with the "not initiated" \<^verbatim>\<open>ExchangeError\<close> and returns:
  that rejection is its only call, no snapshot is fetched, and the order books, their
  objects (contents and caches), the registry and the client objects are as before.
\<close>

theorem load_without_book:
  assumes "orderbooks s symbol = None"
  shows "\<exists>s'. load_order_book ad client mh symbol s = Some (Returned, s') \<and>
     calls s' = calls s @ [ClientReject client (not_initiated (exchange_id s)) mh] \<and>
     fetches s' = fetches s \<and> orderbooks s' = orderbooks s \<and> book_objs s' = book_objs s \<and>
     clients s' = clients s \<and> client_objs s' = client_objs s \<and>
     (\<forall>f. futures (client_objs s client) mh = Some f \<longrightarrow>
        future_objs s' f = complete (Rejected (not_initiated (exchange_id s))) (future_objs s f))"
proof -
  have "load_order_book ad client mh symbol s
      = Some (Returned, client_reject client (not_initiated (exchange_id s)) mh s)"
    using assms by (subst load_order_book.simps) simp
  moreover have "\<forall>f. futures (client_objs s client) mh = Some f \<longrightarrow>
      future_objs (client_reject client (not_initiated (exchange_id s)) mh s) f
        = complete (Rejected (not_initiated (exchange_id s))) (future_objs s f)"
    by (simp add: client_reject_def log_def)
  ultimately show ?thesis by (simp add: client_reject_frame)
qed

theorem load_without_book_witness:
  "\<exists>s'. load_order_book (sample_adapter (\<lambda>n. ([], Inr 103))) 1 ''orderbook:BTC/USDT''
           ''ETH/USDT'' sample_exchange = Some (Returned, s') \<and>
     calls s' = [ClientReject 1
        (BaseError ExchangeError ''binance loadOrderBook() orderbook is not initiated'')
        ''orderbook:BTC/USDT''] \<and>
     fetches s' = 0 \<and> clients s' = [(''wss://stream'', 1)] \<and>
     orderbooks s' = orderbooks sample_exchange \<and> book_objs s' = book_objs sample_exchange \<and>
     future_objs s' 2 = Rejected
        (BaseError ExchangeError ''binance loadOrderBook() orderbook is not initiated'')"
proof -
  have none: "orderbooks sample_exchange ''ETH/USDT'' = None"
    by (simp add: sample_exchange_def)
  have fut: "futures (client_objs sample_exchange 1) ''orderbook:BTC/USDT'' = Some 2"
    by (simp add: sample_exchange_def)
  from load_without_book [OF none, of "sample_adapter (\<lambda>n. ([], Inr 103))" 1 "''orderbook:BTC/USDT''"]
  obtain s' where *:
    "load_order_book (sample_adapter (\<lambda>n. ([], Inr 103))) 1 ''orderbook:BTC/USDT''
           ''ETH/USDT'' sample_exchange = Some (Returned, s')"
    "calls s' = calls sample_exchange @ [ClientReject 1 (not_initiated (exchange_id sample_exchange)) ''orderbook:BTC/USDT'']"
    "fetches s' = fetches sample_exchange" "orderbooks s' = orderbooks sample_exchange"
    "book_objs s' = book_objs sample_exchange" "clients s' = clients sample_exchange"
    "\<forall>f. futures (client_objs sample_exchange 1) ''orderbook:BTC/USDT'' = Some f \<longrightarrow>
        future_objs s' f = complete (Rejected (not_initiated (exchange_id sample_exchange))) (future_objs sample_exchange f)"
    by blast
  from *(7) fut have "future_objs s' 2
      = complete (Rejected (not_initiated (exchange_id sample_exchange))) (future_objs sample_exchange 2)"
    by blast
  with * show ?thesis
    by (simp add: sample_exchange_def not_initiated_def complete_def)
qed

text \<open>
  C1 (as amended). Let the symbol's order book exist, and let some attempt cycle of the
  call (the first, or the one that begins after \<open>n\<close> cycles that each ended with a
  \<^verbatim>\<open>BaseError\<close>) reach, after \<open>k < maxRetries\<close> attempts without a join point, a fetch
  whose snapshot has a cache index \<open>\<ge> 0\<close>. If applying the cached deltas from that index
  onward raises nothing, then from the start of that cycle the operation does exactly
  this, in this order: the \<open>k + 1\<close> fetches, the reset of the stored book to the
  snapshot, \<^verbatim>\<open>handle_delta\<close> on every cached delta from the index onward in list order,
  the clearing of the cache, and \<^verbatim>\<open>client.resolve\<close> of the message hash with the stored
  book; then it returns. The stored book then holds the snapshot with these deltas
  applied and an empty cache.

  As stated, without the condition on the deltas, the claim fails: \<^verbatim>\<open>handle_delta\<close> may
  raise (the base class's always does), and then the cache is not cleared and nobody is
  resolved; with a venue that keeps answering the same way the call never returns.
\<close>

theorem join_resets_replays_resolves:
  fixes s0 :: "('b, 'd) exchange" and ad symbol stored k
  defines "sk \<equiv> (await_fetch ad symbol stored ^^ k) s0"
  assumes cycles: "error_cycles ad client mh symbol n s = Some s0"
    and book: "orderbooks s0 symbol = Some stored"
    and k: "int k < handle_option_maxRetries s0"
    and nj: "\<forall>j<k. no_join ad stored ((await_fetch ad symbol stored ^^ j) s0)"
    and snap: "snd (fetch_order_book ad (fetches sk)) = Inr snapshot"
    and idx: "get_cache_index ad snapshot (cache_seen ad stored sk) = Inr index" "0 \<le> index"
    and app: "apply_deltas ad snapshot (drop (nat index) (cache_seen ad stored sk)) = Inr b'"
  shows "\<exists>s'. load_order_book ad client mh symbol s = Some (Returned, s') \<and>
     calls s' = calls s0 @ replicate (Suc k) (FetchOrderBook symbol) @ [Reset stored snapshot]
        @ map (HandleDelta stored) (drop (nat index) (cache_seen ad stored sk))
        @ [CacheClear stored, ClientResolve client stored mh] \<and>
     book_objs s' stored = \<lparr>book = b', cache = []\<rparr> \<and>
     fetches s' = fetches s0 + Suc k \<and> clients s' = clients s0 \<and>
     orderbooks s' = orderbooks s0 \<and>
     (\<forall>f. futures (client_objs s0 client) mh = Some f \<longrightarrow>
        future_objs s' f = complete (Resolved stored) (future_objs s0 f))"
proof -
  from cycle_joins[OF book k nj snap[unfolded sk_def] idx[unfolded sk_def] app[unfolded sk_def],
      of client mh]
  obtain s' where tb: "try_body ad client mh symbol s0 = (None, s')"
    and rest: "calls s' = calls s0 @ replicate (Suc k) (FetchOrderBook symbol)
        @ [Reset stored snapshot]
        @ map (HandleDelta stored) (drop (nat index) (cache_seen ad stored sk))
        @ [CacheClear stored, ClientResolve client stored mh]"
      "book_objs s' stored = \<lparr>book = b', cache = []\<rparr>"
      "fetches s' = fetches s0 + Suc k" "clients s' = clients s0" "orderbooks s' = orderbooks s0"
      "\<forall>f. futures (client_objs s0 client) mh = Some f \<longrightarrow>
        future_objs s' f = complete (Resolved stored) (future_objs s0 f)"
    unfolding sk_def by blast
  from load_returns_after_try[OF book tb] error_cycles_load[OF cycles]
  have "load_order_book ad client mh symbol s = Some (Returned, s')" by simp
  with rest show ?thesis by blast
qed

theorem join_resets_replays_resolves_witness:
  "\<exists>s'. load_order_book
           (sample_adapter (\<lambda>n. if n = 0 then ([], Inr 50) else ([], Inr 103)))
           1 ''orderbook:BTC/USDT'' ''BTC/USDT'' sample_exchange = Some (Returned, s') \<and>
     calls s' = [FetchOrderBook ''BTC/USDT'', FetchOrderBook ''BTC/USDT'', Reset 0 103,
        HandleDelta 0 104, HandleDelta 0 105, CacheClear 0,
        ClientResolve 1 0 ''orderbook:BTC/USDT''] \<and>
     book_objs s' 0 = \<lparr>book = 105, cache = []\<rparr> \<and> fetches s' = 2 \<and>
     future_objs s' 2 = Resolved 0"
proof -
  define ad where "ad = sample_adapter (\<lambda>n. if n = 0 then ([], Inr 50) else ([], Inr (103::nat)))"
  define s1 where "s1 = await_fetch ad ''BTC/USDT'' 0 sample_exchange"
  have s1: "fetches s1 = 1" "cache (book_objs s1 0) = [101, 102, 103, 104, 105]"
    by (simp_all add: s1_def await_fetch_def log_def ad_def sample_adapter_simps
          sample_exchange_simps)
  have cycles: "error_cycles ad 1 ''orderbook:BTC/USDT'' ''BTC/USDT'' 0 sample_exchange
      = Some sample_exchange" by simp
  have k: "int 1 < handle_option_maxRetries sample_exchange"
    by (simp add: sample_exchange_simps)
  have nj: "\<forall>j<1. no_join ad 0 ((await_fetch ad ''BTC/USDT'' 0 ^^ j) sample_exchange)"
    by (simp add: no_join_def cache_seen_def ad_def sample_adapter_simps sample_exchange_simps
          sample_get_cache_index_def)
  have sk: "(await_fetch ad ''BTC/USDT'' 0 ^^ 1) sample_exchange = s1" by (simp add: s1_def)
  have seen: "cache_seen ad 0 s1 = [101, 102, 103, 104, 105]"
    by (simp add: cache_seen_def s1 ad_def sample_adapter_simps)
  have snap: "snd (fetch_order_book ad (fetches ((await_fetch ad ''BTC/USDT'' 0 ^^ 1) sample_exchange)))
      = Inr 103"
    unfolding sk by (simp add: s1 ad_def sample_adapter_simps)
  have idx: "get_cache_index ad 103 (cache_seen ad 0 ((await_fetch ad ''BTC/USDT'' 0 ^^ 1) sample_exchange))
      = Inr 3"
    unfolding sk seen by (simp add: ad_def sample_adapter_simps sample_get_cache_index_def)
  have app: "apply_deltas ad 103
      (drop (nat 3) (cache_seen ad 0 ((await_fetch ad ''BTC/USDT'' 0 ^^ 1) sample_exchange)))
      = Inr 105"
    unfolding sk seen by (simp add: ad_def sample_adapter_simps)
  from join_resets_replays_resolves
    [OF cycles sample_exchange_simps(1) k nj snap idx _ app, unfolded sk seen]
    sample_exchange_simps(7)
  obtain s' where
    "load_order_book ad 1 ''orderbook:BTC/USDT'' ''BTC/USDT'' sample_exchange = Some (Returned, s')"
    "calls s' = calls sample_exchange @ replicate (Suc 1) (FetchOrderBook ''BTC/USDT'')
        @ [Reset 0 103]
        @ map (HandleDelta 0) (drop (nat 3) [101, 102, 103, 104, 105])
        @ [CacheClear 0, ClientResolve 1 0 ''orderbook:BTC/USDT'']"
    "book_objs s' 0 = \<lparr>book = 105, cache = []\<rparr>"
    "fetches s' = fetches sample_exchange + Suc 1"
    "future_objs s' 2 = complete (Resolved 0) (future_objs sample_exchange 2)"
    by fastforce
  then show ?thesis
    unfolding ad_def by (simp add: sample_exchange_simps complete_def)
qed

theorem join_counterexample:
  "orderbooks sample_exchange ''BTC/USDT'' = Some 0 \<and>
   fetch_order_book (unsupported_adapter (\<lambda>n. ([], Inr 103))) 0 = ([], Inr 103) \<and>
   get_cache_index (unsupported_adapter (\<lambda>n. ([], Inr 103))) 103
     (cache (book_objs sample_exchange 0)) = Inr 3 \<and>
   load_order_book (unsupported_adapter (\<lambda>n. ([], Inr 103))) 1 ''orderbook:BTC/USDT''
     ''BTC/USDT'' sample_exchange = None"
proof -
  define ad where "ad = unsupported_adapter (\<lambda>n. ([], Inr (103::nat)))"
  define I where "I = (\<lambda>s :: (nat, nat) exchange. orderbooks s ''BTC/USDT'' = Some 0 \<and>
     option_maxRetries s = None \<and> cache (book_objs s 0) = [101, 102, 103, 104, 105])"
  define e where "e = BaseError NotSupported ''binance handleDelta not supported yet''"
  have step: "orderbooks s ''BTC/USDT'' \<noteq> None \<and>
      (\<exists>e s1. try_body ad 1 ''orderbook:BTC/USDT'' ''BTC/USDT'' s = (Some e, s1) \<and>
         is_BaseError e \<and> I (client_reject 1 e ''orderbook:BTC/USDT'' s1))" if "I s" for s
  proof -
    define s2 where "s2 = log (HandleDelta 0 104) (reset 0 103 (await_fetch ad ''BTC/USDT'' 0 s))"
    from that have a: "orderbooks s ''BTC/USDT'' = Some 0" "option_maxRetries s = None"
      "cache (book_objs s 0) = [101, 102, 103, 104, 105]" by (simp_all add: I_def)
    have tb: "try_body ad 1 ''orderbook:BTC/USDT'' ''BTC/USDT'' s = (Some e, s2)"
      using a
      by (simp add: try_body_def handle_option_maxRetries_def)
         (subst retry_loop.simps,
          simp add: Let_def ad_def sample_adapter_simps await_fetch_def log_def
            sample_get_cache_index_def reset_def handle_delta_on_def base_handle_delta_def
            e_def s2_def)
    have "I (client_reject 1 e ''orderbook:BTC/USDT'' s2)"
      using a
      by (simp add: I_def client_reject_frame s2_def log_def reset_def await_fetch_def
            ad_def sample_adapter_simps)
    with a tb show ?thesis by (auto simp: e_def)
  qed
  have "I sample_exchange" by (simp add: I_def sample_exchange_simps)
  from never_returns[of I "''BTC/USDT''" ad 1 "''orderbook:BTC/USDT''", OF step this]
  have "load_order_book ad 1 ''orderbook:BTC/USDT'' ''BTC/USDT'' sample_exchange = None" .
  then show ?thesis
    unfolding ad_def
    by (simp add: sample_adapter_simps sample_exchange_simps sample_get_cache_index_def)
qed



text \<open>
  C8. Whatever the registry holds and whichever transport closes fail, \<^verbatim>\<open>ws_close\<close> (and
  \<^verbatim>\<open>close\<close>, which begins with it) creates a close task for every registered connection
  before it awaits anything, waits once for all of these tasks to be done, and leaves the
  registry empty; \<^verbatim>\<open>close\<close> closes its own session only after that.
\<close>

theorem close_closes_every_connection:
  "clients (ws_close close_error s) = [] \<and>
   calls (ws_close close_error s) = calls s @
     (if clients s = [] then []
      else map CloseTask (map snd (clients s)) @
           [WaitAllCompleted (map (\<lambda>c. (c, close_error c)) (map snd (clients s)))]) \<and>
   clients (close close_error s) = [] \<and>
   session (close close_error s) = None \<and>
   calls (close close_error s) = calls (ws_close close_error s) @
     (if session s \<noteq> None \<and> own_session s then [SessionClose] else [])"
proof -
  define s2 where "s2 = log (WaitAllCompleted (map (\<lambda>c. (c, close_error c)) (map snd (clients s))))
      (fold (\<lambda>c. log (CloseTask c)) (map snd (clients s)) s)"
  have s2: "clients s2 = clients s" "session s2 = session s" "own_session s2 = own_session s"
    "calls s2 = calls s @ map CloseTask (map snd (clients s)) @
           [WaitAllCompleted (map (\<lambda>c. (c, close_error c)) (map snd (clients s)))]"
    by (simp_all add: s2_def log_def close_tasks_frame)
  have w: "ws_close close_error s =
      (if clients s \<noteq> [] then
         fold (\<lambda>u s'. s'\<lparr>clients := AList.delete u (clients s')\<rparr>) (map fst (clients s2)) s2
       else s)"
    by (simp add: ws_close_def Let_def s2_def)
  have sub: "fst ` set (clients s2) \<subseteq> set (map fst (clients s2))" by simp
  have a: "clients (ws_close close_error s) = []"
    using delete_all_frame(1)[OF sub] by (simp add: w)
  have b: "calls (ws_close close_error s) = calls s @
     (if clients s = [] then []
      else map CloseTask (map snd (clients s)) @
           [WaitAllCompleted (map (\<lambda>c. (c, close_error c)) (map snd (clients s)))])"
    by (simp add: w delete_all_frame s2)
  have c: "session (ws_close close_error s) = session s"
    "own_session (ws_close close_error s) = own_session s"
    by (simp_all add: w delete_all_frame s2)
  show ?thesis
    using a b c by (auto simp: close_def Let_def log_def split: option.splits)
qed

theorem close_closes_every_connection_witness:
  "clients (close (\<lambda>c. if c = 4 then Some (OtherException ''close failed'') else None)
      three_connections) = [] \<and>
   session (close (\<lambda>c. if c = 4 then Some (OtherException ''close failed'') else None)
      three_connections) = None \<and>
   calls (close (\<lambda>c. if c = 4 then Some (OtherException ''close failed'') else None)
      three_connections)
     = [CloseTask 1, CloseTask 4, CloseTask 5,
        WaitAllCompleted [(1, None), (4, Some (OtherException ''close failed'')), (5, None)],
        SessionClose]"
  using close_closes_every_connection
    [of "\<lambda>c. if c = 4 then Some (OtherException ''close failed'') else None" three_connections]
  by (simp add: three_connections_def sample_exchange_def)

text \<open>
  C4. A call of \<^verbatim>\<open>watch\<close> without a subscribe hash, on a registered connection whose
  futures map has an entry for the message hash, returns that future and leaves the
  instance as it was: no future is created, no subscription recorded, nothing sent.
\<close>

theorem watch_returns_existing_future:
  assumes "map_of (clients s) u = Some c"
    and "futures (client_objs s c) message_hash = Some f"
  shows "watch u message_hash message None subscription callback_error s = (f, s)"
  using assms by (simp add: watch_def client_at_def)

theorem watch_returns_existing_future_witness:
  "watch ''wss://stream'' ''orderbook:BTC/USDT'' (Some [(''op'', ''subscribe'')]) None None None
     sample_exchange = (2, sample_exchange)"
proof -
  have a: "map_of (clients sample_exchange) ''wss://stream'' = Some 1"
    by (simp add: sample_exchange_def)
  have b: "futures (client_objs sample_exchange 1) ''orderbook:BTC/USDT'' = Some 2"
    by (simp add: sample_exchange_def)
  from watch_returns_existing_future[OF a b] show ?thesis .
qed












end
